theory Spec2Isabelle
  imports Complex_Main "HOL-Library.Word"
begin

section \<open>The I-Bird attitude regulation module (regulator.c)\<close>

text \<open>
  A shallow embedding of \<^verbatim>\<open>regulator.c\<close>. The module keeps its state in file-level
  variables; here they are the fields of one record that every operation takes and
  returns. The C type \<^verbatim>\<open>float\<close> is modelled by \<^typ>\<open>real\<close>: rounding, infinities and
  NaN are outside the model. Pointer arguments that the caller may pass as \<^verbatim>\<open>NULL\<close>
  are options.
\<close>

subsection \<open>Data\<close>

text \<open>\<^verbatim>\<open>Quaternion\<close> (quat.h): the fields \<^verbatim>\<open>w, x, y, z\<close> read and written by the module.\<close>

record Quaternion =
  qw :: real
  qx :: real
  qy :: real
  qz :: real

text \<open>\<^verbatim>\<open>RegulatorOutput\<close>, lines 74-78.\<close>

record RegulatorOutput =
  thrust :: real
  steer :: real
  elevator :: real

text \<open>
  \<^verbatim>\<open>RegulatorStateStruct\<close> (regulator.h): the fields written in lines 340-349. The
  packed error holds the angle in \<^verbatim>\<open>w\<close>, roll in \<^verbatim>\<open>x\<close>, pitch in \<^verbatim>\<open>y\<close>, yaw in \<^verbatim>\<open>z\<close>;
  \<^verbatim>\<open>u[0..2]\<close> are thrust, steer, elevator.
\<close>

record RegulatorStateStruct =
  time :: nat
  ref :: Quaternion
  pose :: Quaternion
  error :: Quaternion
  u :: "real list"

text \<open>\<^verbatim>\<open>PidParamsStruct\<close> (regulator.h): the fields read by the PID setters, lines 196-221.\<close>

record PidParamsStruct =
  p_ref :: real
  p_kp :: real
  p_ki :: real
  p_kd :: real
  p_offset :: real
  p_beta :: real
  p_gamma :: real

text \<open>\<^verbatim>\<open>RateFilterParamsStruct\<close> (regulator.h): the fields read in lines 140-143 and 173-194.\<close>

record RateFilterParamsStruct =
  rf_order :: nat
  rf_type :: nat
  rf_xcoeffs :: "real list"
  rf_ycoeffs :: "real list"

text \<open>
  \<^verbatim>\<open>CtrlPidParamStruct\<close> (controller.h is not part of the sources). The fields are the
  ones the services named in the interface description set: set point and gains,
  offset, reference weights, saturation bounds, sample period, the running flag; the
  memory of the control law is kept abstract as a list.
\<close>

record CtrlPidParamStruct =
  c_ref :: real
  c_kp :: real
  c_ki :: real
  c_kd :: real
  c_offset :: real
  c_beta :: real
  c_gamma :: real
  c_umax :: real
  c_umin :: real
  c_ts :: real
  c_running :: bool
  c_memory :: "real list"

text \<open>
  \<^verbatim>\<open>DigitalFilterStruct\<close> (dfilter.h is not part of the sources): order, type, the two
  coefficient sets and the sample history.
\<close>

record DigitalFilterStruct =
  df_order :: nat
  df_type :: nat
  df_xcoeffs :: "real list"
  df_ycoeffs :: "real list"
  df_history :: "real list"

text \<open>
  \<^verbatim>\<open>PoolBuffStruct\<close> (pbuff.h is not part of the sources). Slots are identified by
  their index in \<^verbatim>\<open>reg_state\<close>; the pool keeps a queue of idle and a queue of active
  slots, oldest first. A slot in neither queue is checked out.
\<close>

record PoolBuffStruct =
  idle :: "nat list"
  active :: "nat list"

text \<open>Calls into the motor and servo drivers, in the order they are made.\<close>

datatype hw_call =
  ServoSetup | McSetup | ServoStart | ServoStop
  | McSteer real | McThrust real | ServoSet real

text \<open>Dereferencing a null pointer has no defined result; the model returns this value.\<close>

datatype fault = NullDereference

text \<open>The file-level variables of lines 92-102, and the trace of driver calls.\<close>

record regulator =
  yawPid :: CtrlPidParamStruct
  pitchPid :: CtrlPidParamStruct
  rollPid :: CtrlPidParamStruct
  yawRateFilter :: "DigitalFilterStruct option"
  pitchRateFilter :: "DigitalFilterStruct option"
  rollRateFilter :: "DigitalFilterStruct option"
  is_ready :: bool
  reg_mode :: "8 word"
  rc_outputs :: RegulatorOutput
  reference :: Quaternion
  reg_state :: "RegulatorStateStruct list"
  reg_state_buff :: PoolBuffStruct
  hw :: "hw_call list"

text \<open>
  The mode constants (regulator.h is not part of the sources). The module only compares
  a flag with them, so all that matters is that they are three different values; they
  are numbered in the order Off, Track, RemoteControl.
\<close>

definition REG_OFF :: "8 word" where
  "REG_OFF = 0"

definition REG_TRACK :: "8 word" where
  "REG_TRACK = 1"

definition REG_REMOTE_CONTROL :: "8 word" where
  "REG_REMOTE_CONTROL = 2"

definition REG_BUFF_SIZE :: nat where
  "REG_BUFF_SIZE = 5"

definition YAW_SAT_MAX :: real where "YAW_SAT_MAX = 1"
definition YAW_SAT_MIN :: real where "YAW_SAT_MIN = - 1"
definition PITCH_SAT_MAX :: real where "PITCH_SAT_MAX = 1"
definition PITCH_SAT_MIN :: real where "PITCH_SAT_MIN = - 1"
definition ROLL_SAT_MAX :: real where "ROLL_SAT_MAX = 1"
definition ROLL_SAT_MIN :: real where "ROLL_SAT_MIN = - 1"

subsection \<open>Collaborators\<close>

text \<open>
  The fixed-point trigonometry of bams.h is not part of the sources and the spec leaves
  it out of scope. The three functions the control cycle calls are parameters, and so is
  the type \<^verbatim>\<open>bams16_t\<close> of binary angles: the cycle only doubles such a value
  (\<^verbatim>\<open>a_2*2\<close>), which needs a multiplication and the numeral 2 on the type. For a
  16-bit type this multiplication wraps around.
\<close>

record 'b bams =
  bams16Acos :: "real \<Rightarrow> 'b"
  bams16ToFloatRad :: "'b \<Rightarrow> real"
  bams16Sin :: "'b \<Rightarrow> real"

text \<open>
  The control law, the difference equation of the filter and the initialisation of a
  PID block are out of scope of the spec as well; they are parameters. Both
  \<^verbatim>\<open>ctrlRunPid\<close> and \<^verbatim>\<open>dfilterApply\<close> work on the objects they are handed, so they return
  them updated. \<^verbatim>\<open>ctrlRunPid\<close> receives the filter handle by value: it can change the
  filter behind a handle but not the handle, so its third result is the change it
  makes to that filter.

  The last service stands for the statement of lines 175-177 in
  \<^verbatim>\<open>rgltrSetYawRateFilter\<close>. As written it does not parse: the argument list of
  \<^verbatim>\<open>dfilterCreate\<close> is opened with order and type, its two coefficient arguments are
  commented out, and with the parenthesis still open a call \<^verbatim>\<open>dfilterInit(order, type,
  xcoeffs, ycoeffs)\<close> follows. The sources do not determine what this leaves in
  \<^verbatim>\<open>yawRateFilter\<close>, so it is a parameter: a function of the parameter block and of the
  handle held before.
\<close>

record services =
  ctrlInitPidParams :: "CtrlPidParamStruct \<Rightarrow> real \<Rightarrow> CtrlPidParamStruct"
  ctrlRunPid :: "CtrlPidParamStruct \<Rightarrow> real \<Rightarrow> DigitalFilterStruct option
                   \<Rightarrow> real \<times> CtrlPidParamStruct
                      \<times> (DigitalFilterStruct \<Rightarrow> DigitalFilterStruct)"
  dfilterApply :: "DigitalFilterStruct \<Rightarrow> real \<Rightarrow> real \<times> DigitalFilterStruct"
  yawRateFilterAssigned :: "RateFilterParamsStruct \<Rightarrow> DigitalFilterStruct option
                              \<Rightarrow> DigitalFilterStruct option"

text \<open>
  Modelled from the spec: quat.c is missing. \<^verbatim>\<open>quatConj\<close> is the conjugate, which negates
  the vector part.
\<close>

definition quatConj :: "Quaternion \<Rightarrow> Quaternion" where
  "quatConj q = \<lparr>qw = qw q, qx = - qx q, qy = - qy q, qz = - qz q\<rparr>"

text \<open>
  Modelled from the spec: quat.c is missing. \<^verbatim>\<open>quatMult\<close> is the quaternion product
  \<open>a \<otimes> b\<close> (Hamilton product). \<^verbatim>\<open>quatCopy\<close> is the assignment of all four fields and
  has no definition of its own.
\<close>

definition quatMult :: "Quaternion \<Rightarrow> Quaternion \<Rightarrow> Quaternion" where
  "quatMult a b =
     \<lparr>qw = qw a * qw b - qx a * qx b - qy a * qy b - qz a * qz b,
      qx = qw a * qx b + qx a * qw b + qy a * qz b - qz a * qy b,
      qy = qw a * qy b - qx a * qz b + qy a * qw b + qz a * qx b,
      qz = qw a * qz b + qx a * qy b - qy a * qx b + qz a * qw b\<rparr>"

text \<open>
  Modelled from the spec: controller.c is missing. \<open>start()\<close> sets the running flag of
  the controller.
\<close>

definition ctrlStart :: "CtrlPidParamStruct \<Rightarrow> CtrlPidParamStruct" where
  "ctrlStart pid = pid\<lparr>c_running := True\<rparr>"

text \<open>Modelled from the spec: controller.c is missing. \<open>stop()\<close> clears the running flag.\<close>

definition ctrlStop :: "CtrlPidParamStruct \<Rightarrow> CtrlPidParamStruct" where
  "ctrlStop pid = pid\<lparr>c_running := False\<rparr>"

text \<open>Modelled from the spec: controller.c is missing. \<open>isRunning()\<close> reports the flag.\<close>

definition ctrlIsRunning :: "CtrlPidParamStruct \<Rightarrow> bool" where
  "ctrlIsRunning pid = c_running pid"

text \<open>
  Modelled from the spec: controller.c is missing. \<open>setGains(setpoint, kp, ki, kd)\<close> stores
  the set point and the three gains.
\<close>

definition ctrlSetPidParams ::
  "CtrlPidParamStruct \<Rightarrow> real \<Rightarrow> real \<Rightarrow> real \<Rightarrow> real \<Rightarrow> CtrlPidParamStruct" where
  "ctrlSetPidParams pid r kp ki kd = pid\<lparr>c_ref := r, c_kp := kp, c_ki := ki, c_kd := kd\<rparr>"

text \<open>Modelled from the spec: controller.c is missing. \<open>setOffset(v)\<close> stores the offset.\<close>

definition ctrlSetPidOffset :: "CtrlPidParamStruct \<Rightarrow> real \<Rightarrow> CtrlPidParamStruct" where
  "ctrlSetPidOffset pid v = pid\<lparr>c_offset := v\<rparr>"

text \<open>
  Modelled from the spec: controller.c is missing. \<open>setReferenceWeights(beta, gamma)\<close>
  stores the two weights.
\<close>

definition ctrlSetRefWeigts :: "CtrlPidParamStruct \<Rightarrow> real \<Rightarrow> real \<Rightarrow> CtrlPidParamStruct" where
  "ctrlSetRefWeigts pid b g = pid\<lparr>c_beta := b, c_gamma := g\<rparr>"

text \<open>
  Modelled from the spec: controller.c is missing. \<open>setSaturation(max, min)\<close> stores the
  two bounds.
\<close>

definition ctrlSetSaturation :: "CtrlPidParamStruct \<Rightarrow> real \<Rightarrow> real \<Rightarrow> CtrlPidParamStruct" where
  "ctrlSetSaturation pid hi lo = pid\<lparr>c_umax := hi, c_umin := lo\<rparr>"

text \<open>
  Modelled from the spec: controller.c is missing. \<^verbatim>\<open>ctrlSetRef\<close> stores the set point of
  the axis (\<open>setAxisReference(axis, value)\<close>).
\<close>

definition ctrlSetRef :: "CtrlPidParamStruct \<Rightarrow> real \<Rightarrow> CtrlPidParamStruct" where
  "ctrlSetRef pid r = pid\<lparr>c_ref := r\<rparr>"

text \<open>
  Modelled from the spec: dfilter.c is missing. \<open>create(order, type, feedforwardCoeffs,
  feedbackCoeffs)\<close> returns the handle of a filter with these parameters and no samples
  seen yet.
\<close>

definition dfilterCreate ::
  "nat \<Rightarrow> nat \<Rightarrow> real list \<Rightarrow> real list \<Rightarrow> DigitalFilterStruct option" where
  "dfilterCreate n t xs ys =
     Some \<lparr>df_order = n, df_type = t, df_xcoeffs = xs, df_ycoeffs = ys, df_history = []\<rparr>"

text \<open>Modelled from the spec: pbuff.c is missing. After initialisation all slots are idle.\<close>

definition pbuffInit :: "nat \<Rightarrow> PoolBuffStruct" where
  "pbuffInit n = \<lparr>idle = [0..<n], active = []\<rparr>"

text \<open>
  Modelled from the spec: pbuff.c is missing. The producer takes an idle slot, the
  oldest one; when none is idle it reclaims the oldest active slot; when every slot is
  checked out it gets nothing. The slot taken is checked out.
\<close>

definition pbuffForceGetIdleOldest :: "PoolBuffStruct \<Rightarrow> nat option \<times> PoolBuffStruct" where
  "pbuffForceGetIdleOldest pb =
     (case idle pb of
        i # rest \<Rightarrow> (Some i, pb\<lparr>idle := rest\<rparr>)
      | [] \<Rightarrow> (case active pb of
                 i # rest \<Rightarrow> (Some i, pb\<lparr>active := rest\<rparr>)
               | [] \<Rightarrow> (None, pb)))"

text \<open>
  Modelled from the spec: pbuff.c is missing. The producer tags the slot it has written
  active; it is the newest active slot.
\<close>

definition pbuffAddActive :: "PoolBuffStruct \<Rightarrow> nat \<Rightarrow> PoolBuffStruct" where
  "pbuffAddActive pb i = pb\<lparr>active := active pb @ [i]\<rparr>"

text \<open>
  Modelled from the spec: pbuff.c is missing. The consumer claims the oldest active
  slot, which is checked out from then on; without an active slot it gets nothing and
  the pool stays as it is.
\<close>

definition pbuffGetOldestActive :: "PoolBuffStruct \<Rightarrow> nat option \<times> PoolBuffStruct" where
  "pbuffGetOldestActive pb =
     (case active pb of
        i # rest \<Rightarrow> (Some i, pb\<lparr>active := rest\<rparr>)
      | [] \<Rightarrow> (None, pb))"

text \<open>
  Modelled from the spec: pbuff.c is missing. The consumer signals that it is done
  reading; the slot becomes idle.
\<close>

definition pbuffReturn :: "PoolBuffStruct \<Rightarrow> nat \<Rightarrow> PoolBuffStruct" where
  "pbuffReturn pb i = pb\<lparr>idle := idle pb @ [i]\<rparr>"

subsection \<open>Configuration and mode\<close>

text \<open>
  \<^verbatim>\<open>rgltrSetYawRateFilter\<close>, lines 173-179. The parameter block is read through the
  pointer without a check. What the statement of lines 175-177 assigns to
  \<^verbatim>\<open>yawRateFilter\<close> is not determined by the sources (see the services above): the
  coefficient sets of the block do not reach \<^verbatim>\<open>dfilterCreate\<close> as they do in the pitch
  and roll setters.
\<close>

definition rgltrSetYawRateFilter ::
  "services \<Rightarrow> RateFilterParamsStruct option \<Rightarrow> regulator \<Rightarrow> fault + regulator" where
  "rgltrSetYawRateFilter P params s =
     (case params of
        None \<Rightarrow> Inl NullDereference
      | Some p \<Rightarrow> Inr (s\<lparr>yawRateFilter := yawRateFilterAssigned P p (yawRateFilter s)\<rparr>))"

text \<open>\<^verbatim>\<open>rgltrSetPitchRateFilter\<close> and \<^verbatim>\<open>rgltrSetRollRateFilter\<close>, lines 182-194.\<close>

definition rgltrSetPitchRateFilter ::
  "RateFilterParamsStruct option \<Rightarrow> regulator \<Rightarrow> fault + regulator" where
  "rgltrSetPitchRateFilter params s =
     (case params of
        None \<Rightarrow> Inl NullDereference
      | Some p \<Rightarrow>
          Inr (s\<lparr>pitchRateFilter :=
                   dfilterCreate (rf_order p) (rf_type p) (rf_xcoeffs p) (rf_ycoeffs p)\<rparr>))"

definition rgltrSetRollRateFilter ::
  "RateFilterParamsStruct option \<Rightarrow> regulator \<Rightarrow> fault + regulator" where
  "rgltrSetRollRateFilter params s =
     (case params of
        None \<Rightarrow> Inl NullDereference
      | Some p \<Rightarrow>
          Inr (s\<lparr>rollRateFilter :=
                   dfilterCreate (rf_order p) (rf_type p) (rf_xcoeffs p) (rf_ycoeffs p)\<rparr>))"

text \<open>
  The four calls every PID setter makes on its controller, lines 198-201, 207-210 and
  216-219.
\<close>

definition setPid ::
  "PidParamsStruct \<Rightarrow> real \<Rightarrow> real \<Rightarrow> CtrlPidParamStruct \<Rightarrow> CtrlPidParamStruct" where
  "setPid p sat_max sat_min pid =
     ctrlSetSaturation
       (ctrlSetRefWeigts
         (ctrlSetPidOffset
           (ctrlSetPidParams pid (p_ref p) (p_kp p) (p_ki p) (p_kd p))
           (p_offset p))
         (p_beta p) (p_gamma p))
       sat_max sat_min"

text \<open>\<^verbatim>\<open>rgltrSetYawPid\<close>, \<^verbatim>\<open>rgltrSetPitchPid\<close>, \<^verbatim>\<open>rgltrSetRollPid\<close>, lines 196-221.\<close>

definition rgltrSetYawPid :: "PidParamsStruct option \<Rightarrow> regulator \<Rightarrow> fault + regulator" where
  "rgltrSetYawPid params s =
     (case params of
        None \<Rightarrow> Inl NullDereference
      | Some p \<Rightarrow> Inr (s\<lparr>yawPid := setPid p YAW_SAT_MAX YAW_SAT_MIN (yawPid s)\<rparr>))"

definition rgltrSetPitchPid :: "PidParamsStruct option \<Rightarrow> regulator \<Rightarrow> fault + regulator" where
  "rgltrSetPitchPid params s =
     (case params of
        None \<Rightarrow> Inl NullDereference
      | Some p \<Rightarrow> Inr (s\<lparr>pitchPid := setPid p PITCH_SAT_MAX PITCH_SAT_MIN (pitchPid s)\<rparr>))"

definition rgltrSetRollPid :: "PidParamsStruct option \<Rightarrow> regulator \<Rightarrow> fault + regulator" where
  "rgltrSetRollPid params s =
     (case params of
        None \<Rightarrow> Inl NullDereference
      | Some p \<Rightarrow> Inr (s\<lparr>rollPid := setPid p ROLL_SAT_MAX ROLL_SAT_MIN (rollPid s)\<rparr>))"

text \<open>\<^verbatim>\<open>rgltrSetYawRef\<close>, \<^verbatim>\<open>rgltrSetPitchRef\<close>, \<^verbatim>\<open>rgltrSetRollRef\<close>, lines 223-239.\<close>

definition rgltrSetYawRef :: "real \<Rightarrow> regulator \<Rightarrow> regulator" where
  "rgltrSetYawRef r s = s\<lparr>yawPid := ctrlSetRef (yawPid s) r\<rparr>"

definition rgltrSetPitchRef :: "real \<Rightarrow> regulator \<Rightarrow> regulator" where
  "rgltrSetPitchRef r s = s\<lparr>pitchPid := ctrlSetRef (pitchPid s) r\<rparr>"

definition rgltrSetRollRef :: "real \<Rightarrow> regulator \<Rightarrow> regulator" where
  "rgltrSetRollRef r s = s\<lparr>rollPid := ctrlSetRef (rollPid s) r\<rparr>"

text \<open>
  \<^verbatim>\<open>rgltrGetQuatRef\<close>, lines 241-246. The argument is what the pointer refers to before
  the call (\<open>None\<close> for a null pointer), the result what it refers to afterwards; the
  module state is not touched.
\<close>

definition rgltrGetQuatRef :: "Quaternion option \<Rightarrow> regulator \<Rightarrow> Quaternion option" where
  "rgltrGetQuatRef r s = (case r of None \<Rightarrow> None | Some q \<Rightarrow> Some (reference s))"

text \<open>\<^verbatim>\<open>rgltrSetQuatRef\<close>, lines 248-253.\<close>

definition rgltrSetQuatRef :: "Quaternion option \<Rightarrow> regulator \<Rightarrow> regulator" where
  "rgltrSetQuatRef r s = (case r of None \<Rightarrow> s | Some q \<Rightarrow> s\<lparr>reference := q\<rparr>)"

text \<open>\<^verbatim>\<open>rgltrSetRemoteControlValues\<close>, lines 255-261.\<close>

definition rgltrSetRemoteControlValues :: "real \<Rightarrow> real \<Rightarrow> real \<Rightarrow> regulator \<Rightarrow> regulator" where
  "rgltrSetRemoteControlValues th st el s =
     s\<lparr>rc_outputs := \<lparr>thrust = th, steer = st, elevator = el\<rparr>\<rparr>"

text \<open>\<^verbatim>\<open>rgltrSetMode\<close>, lines 149-171. A flag that is none of the three modes changes nothing.\<close>

definition rgltrSetMode :: "8 word \<Rightarrow> regulator \<Rightarrow> regulator" where
  "rgltrSetMode flag s =
     (if flag = REG_OFF then
        s\<lparr>reg_mode := flag,
          yawPid := ctrlStop (yawPid s),
          pitchPid := ctrlStop (pitchPid s),
          rollPid := ctrlStop (rollPid s),
          hw := hw s @ [ServoStop]\<rparr>
      else if flag = REG_TRACK then
        s\<lparr>reg_mode := flag,
          yawPid := ctrlStart (yawPid s),
          pitchPid := ctrlStart (pitchPid s),
          rollPid := ctrlStart (rollPid s),
          hw := hw s @ [ServoStart]\<rparr>
      else if flag = REG_REMOTE_CONTROL then
        s\<lparr>reg_mode := flag,
          yawPid := ctrlStop (yawPid s),
          pitchPid := ctrlStop (pitchPid s),
          rollPid := ctrlStop (rollPid s),
          hw := hw s @ [ServoStart]\<rparr>
      else s)"

text \<open>
  \<^verbatim>\<open>rgltrSetup\<close>, lines 111-147. The slot pointers handed to \<^verbatim>\<open>pbuffInit\<close> are the
  indices \<open>0..4\<close> of \<^verbatim>\<open>reg_state\<close>.
\<close>

definition rgltrSetup :: "services \<Rightarrow> real \<Rightarrow> regulator \<Rightarrow> fault + regulator" where
  "rgltrSetup P ts s =
     (let xcoeffs = [1 / 6, 3, 3, 1];
          ycoeffs = [0, 0, 1 / 3, 0];
          s1 = s\<lparr>is_ready := False, reg_mode := REG_OFF\<rparr>;
          s2 = s1\<lparr>hw := hw s1 @ [ServoSetup, McSetup]\<rparr>;
          s3 = s2\<lparr>yawPid := ctrlInitPidParams P (yawPid s2) ts,
                  pitchPid := ctrlInitPidParams P (pitchPid s2) ts,
                  rollPid := ctrlInitPidParams P (rollPid s2) ts\<rparr>;
          s4 = s3\<lparr>reg_state_buff := pbuffInit REG_BUFF_SIZE\<rparr>;
          s5 = s4\<lparr>reference := \<lparr>qw = 1, qx = 0, qy = 0, qz = 0\<rparr>\<rparr>;
          f_params = \<lparr>rf_order = 3, rf_type = 0, rf_xcoeffs = xcoeffs, rf_ycoeffs = ycoeffs\<rparr>
      in case rgltrSetYawRateFilter P (Some f_params) s5 of
           Inl e \<Rightarrow> Inl e
         | Inr s6 \<Rightarrow> Inr (s6\<lparr>is_ready := True\<rparr>))"

subsection \<open>Telemetry read\<close>

text \<open>What \<^verbatim>\<open>memset(dst, 0, sizeof(RegulatorStateStruct))\<close> leaves in the destination.\<close>

definition zero_quat :: Quaternion where
  "zero_quat = \<lparr>qw = 0, qx = 0, qy = 0, qz = 0\<rparr>"

definition zero_state :: RegulatorStateStruct where
  "zero_state = \<lparr>time = 0, ref = zero_quat, pose = zero_quat, error = zero_quat, u = [0, 0, 0]\<rparr>"

text \<open>
  \<^verbatim>\<open>rgltrGetState\<close>, lines 263-277, for a valid destination: the result is the content of
  the destination and the new module state.
\<close>

definition rgltrGetState :: "regulator \<Rightarrow> RegulatorStateStruct \<times> regulator" where
  "rgltrGetState s =
     (case pbuffGetOldestActive (reg_state_buff s) of
        (None, pb) \<Rightarrow> (zero_state, s\<lparr>reg_state_buff := pb\<rparr>)
      | (Some src, pb) \<Rightarrow> (reg_state s ! src, s\<lparr>reg_state_buff := pbuffReturn pb src\<rparr>))"

subsection \<open>The control cycle\<close>

text \<open>
  The division of line 308. For a zero divisor the C division yields an infinity or a
  NaN, which a real number cannot stand for; the model says nothing about that value.
\<close>

definition fdiv :: "real \<Rightarrow> real \<Rightarrow> real" where
  "fdiv a b = (if b = 0 then undefined else a / b)"

text \<open>
  Lines 294-312: the error quaternion and the errors extracted from it, returned as
  (\<^verbatim>\<open>yaw_err\<close>, \<^verbatim>\<open>pitch_err\<close>, \<^verbatim>\<open>roll_err\<close>, \<^verbatim>\<open>a\<close>). The local \<^verbatim>\<open>a\<close> is declared without
  an initialiser in line 283 and assigned in the second branch only; \<open>a0\<close> is the value
  it holds when the function is entered.
\<close>

definition orientationError ::
  "('b::{times,numeral}) bams \<Rightarrow> real \<Rightarrow> Quaternion \<Rightarrow> Quaternion
     \<Rightarrow> real \<times> real \<times> real \<times> real" where
  "orientationError T a0 rf ps =
     (let conj = quatConj ps;
          err = quatMult rf conj
      in if qw err = 1 then (0, 0, 0, a0)
         else
           let a_2 = bams16Acos T (qw err);
               a = bams16ToFloatRad T (a_2 * 2);
               sina_2 = bams16Sin T a_2;
               scale = fdiv a sina_2
           in (qz err * scale, qy err * scale, qx err * scale, a))"

text \<open>\<^verbatim>\<open>runYawControl\<close>, \<^verbatim>\<open>runPitchControl\<close>, \<^verbatim>\<open>runRollControl\<close>, lines 362-399.\<close>

definition runYawControl :: "services \<Rightarrow> real \<Rightarrow> regulator \<Rightarrow> real \<times> regulator" where
  "runYawControl P yaw s =
     (if \<not> ctrlIsRunning (yawPid s) then (0, s)
      else case ctrlRunPid P (yawPid s) yaw (yawRateFilter s) of
             (v, pid, g) \<Rightarrow>
               (v, s\<lparr>yawPid := pid, yawRateFilter := map_option g (yawRateFilter s)\<rparr>))"

definition runPitchControl :: "services \<Rightarrow> real \<Rightarrow> regulator \<Rightarrow> real \<times> regulator" where
  "runPitchControl P pitch s =
     (if \<not> ctrlIsRunning (pitchPid s) then (0, s)
      else case ctrlRunPid P (pitchPid s) pitch (pitchRateFilter s) of
             (v, pid, g) \<Rightarrow>
               (v, s\<lparr>pitchPid := pid, pitchRateFilter := map_option g (pitchRateFilter s)\<rparr>))"

definition runRollControl :: "services \<Rightarrow> real \<Rightarrow> regulator \<Rightarrow> real \<times> regulator" where
  "runRollControl P roll s =
     (if \<not> ctrlIsRunning (rollPid s) then (0, s)
      else case ctrlRunPid P (rollPid s) roll (rollRateFilter s) of
             (v, pid, g) \<Rightarrow>
               (v, s\<lparr>rollPid := pid, rollRateFilter := map_option g (rollRateFilter s)\<rparr>))"

text \<open>Lines 314-332: the mode branch, returning (\<^verbatim>\<open>steer\<close>, \<^verbatim>\<open>thrust\<close>, \<^verbatim>\<open>elevator\<close>).\<close>

definition modeBranch ::
  "services \<Rightarrow> real \<Rightarrow> real \<Rightarrow> regulator \<Rightarrow> (real \<times> real \<times> real) \<times> regulator" where
  "modeBranch P yaw_err pitch_err s =
     (if reg_mode s = REG_REMOTE_CONTROL then
        ((steer (rc_outputs s), thrust (rc_outputs s), elevator (rc_outputs s)), s)
      else if reg_mode s = REG_TRACK then
        (case runYawControl P yaw_err s of
           (st, s1) \<Rightarrow>
             (case runPitchControl P pitch_err s1 of
                (el, s2) \<Rightarrow> ((st, thrust (rc_outputs s2), el), s2)))
      else ((0, 0, 0), s))"

text \<open>Lines 334-336: the yaw rate filter, when there is one, is applied to the pitch error.\<close>

definition crossFilter :: "services \<Rightarrow> real \<Rightarrow> regulator \<Rightarrow> real \<times> regulator" where
  "crossFilter P pitch_err s =
     (case yawRateFilter s of
        None \<Rightarrow> (pitch_err, s)
      | Some f \<Rightarrow>
          (case dfilterApply P f pitch_err of
             (v, f') \<Rightarrow> (v, s\<lparr>yawRateFilter := Some f'\<rparr>)))"

text \<open>Lines 340-349: the record written into the slot.\<close>

definition snapshot ::
  "nat \<Rightarrow> Quaternion \<Rightarrow> Quaternion \<Rightarrow> real \<Rightarrow> real \<Rightarrow> real \<Rightarrow> real
     \<Rightarrow> real \<times> real \<times> real \<Rightarrow> RegulatorStateStruct" where
  "snapshot ticks rf ps a roll_err pitch_err yaw_err out =
     (case out of
        (st, th, el) \<Rightarrow>
          \<lparr>time = ticks, ref = rf, pose = ps,
           error = \<lparr>qw = a, qx = roll_err, qy = pitch_err, qz = yaw_err\<rparr>,
           u = [th, st, el]\<rparr>)"

text \<open>Lines 338-351: the slot is taken from the pool, written and made active.\<close>

definition publish :: "RegulatorStateStruct \<Rightarrow> regulator \<Rightarrow> regulator" where
  "publish r s =
     (case pbuffForceGetIdleOldest (reg_state_buff s) of
        (None, pb) \<Rightarrow> s\<lparr>reg_state_buff := pb\<rparr>
      | (Some i, pb) \<Rightarrow>
          s\<lparr>reg_state := (reg_state s)[i := r], reg_state_buff := pbuffAddActive pb i\<rparr>)"

text \<open>Lines 353-355: the three driver calls.\<close>

definition actuate :: "real \<times> real \<times> real \<Rightarrow> regulator \<Rightarrow> regulator" where
  "actuate out s =
     (case out of (st, th, el) \<Rightarrow> s\<lparr>hw := hw s @ [McSteer st, McThrust th, ServoSet el]\<rparr>)"

text \<open>
  \<^verbatim>\<open>rgltrRunController\<close>, lines 280-357. \<open>ps\<close> is the pose \<^verbatim>\<open>attGetQuat\<close> delivers in this
  cycle and \<open>ticks\<close> the value \<^verbatim>\<open>sclockGetLocalTicks\<close> returns; \<open>a0\<close> is the content of the
  uninitialised local \<^verbatim>\<open>a\<close>.
\<close>

definition rgltrRunController ::
  "('b::{times,numeral}) bams \<Rightarrow> services \<Rightarrow> Quaternion \<Rightarrow> nat \<Rightarrow> real
     \<Rightarrow> regulator \<Rightarrow> regulator" where
  "rgltrRunController T P ps ticks a0 s =
     (if \<not> is_ready s then s
      else
        case orientationError T a0 (reference s) ps of
          (yaw_err, pitch_err, roll_err, a) \<Rightarrow>
            (case modeBranch P yaw_err pitch_err s of
               (out, s1) \<Rightarrow>
                 (case crossFilter P pitch_err s1 of
                    (pitch_err', s2) \<Rightarrow>
                      actuate out
                        (publish
                          (snapshot ticks (reference s2) ps a roll_err pitch_err' yaw_err out)
                          s2))))"

subsection \<open>Reachable states\<close>

text \<open>
  The states the module can be in: set up, with \<^verbatim>\<open>reg_state\<close> an array of
  \<^verbatim>\<open>REG_BUFF_SIZE\<close> records (line 101), then driven through its public operations in
  any order, with any arguments.
\<close>

inductive reachable :: "('b::{times,numeral}) bams \<Rightarrow> services \<Rightarrow> regulator \<Rightarrow> bool"
  for T :: "'b bams" and P :: services where
  r_setup: "length (reg_state s0) = REG_BUFF_SIZE \<Longrightarrow> rgltrSetup P ts s0 = Inr s
              \<Longrightarrow> reachable T P s"
| r_mode: "reachable T P s \<Longrightarrow> reachable T P (rgltrSetMode flag s)"
| r_run: "reachable T P s \<Longrightarrow> reachable T P (rgltrRunController T P ps ticks a0 s)"
| r_remote: "reachable T P s \<Longrightarrow> reachable T P (rgltrSetRemoteControlValues th st el s)"
| r_quat: "reachable T P s \<Longrightarrow> reachable T P (rgltrSetQuatRef r s)"
| r_get: "reachable T P s \<Longrightarrow> reachable T P (snd (rgltrGetState s))"
| r_yaw_ref: "reachable T P s \<Longrightarrow> reachable T P (rgltrSetYawRef v s)"
| r_pitch_ref: "reachable T P s \<Longrightarrow> reachable T P (rgltrSetPitchRef v s)"
| r_roll_ref: "reachable T P s \<Longrightarrow> reachable T P (rgltrSetRollRef v s)"
| r_yaw_pid: "reachable T P s \<Longrightarrow> rgltrSetYawPid p s = Inr s' \<Longrightarrow> reachable T P s'"
| r_pitch_pid: "reachable T P s \<Longrightarrow> rgltrSetPitchPid p s = Inr s' \<Longrightarrow> reachable T P s'"
| r_roll_pid: "reachable T P s \<Longrightarrow> rgltrSetRollPid p s = Inr s' \<Longrightarrow> reachable T P s'"
| r_yaw_filter: "reachable T P s \<Longrightarrow> rgltrSetYawRateFilter P f s = Inr s' \<Longrightarrow> reachable T P s'"
| r_pitch_filter: "reachable T P s \<Longrightarrow> rgltrSetPitchRateFilter f s = Inr s' \<Longrightarrow> reachable T P s'"
| r_roll_filter: "reachable T P s \<Longrightarrow> rgltrSetRollRateFilter f s = Inr s' \<Longrightarrow> reachable T P s'"

text \<open>
  The bookkeeping of the pool between two operations: the array has its five records
  and every slot is in exactly one of the two queues, none being checked out.
\<close>

definition pool_complete :: "regulator \<Rightarrow> bool" where
  "pool_complete s =
     (length (reg_state s) = REG_BUFF_SIZE \<and>
      distinct (idle (reg_state_buff s) @ active (reg_state_buff s)) \<and>
      set (idle (reg_state_buff s) @ active (reg_state_buff s)) = {0..<REG_BUFF_SIZE})"

subsection \<open>Concrete collaborators and states\<close>

text \<open>
  Two instances of the trigonometry on 16-bit binary angles, 65536 units to the turn,
  used to run the module on concrete inputs. They differ in how the 16 bits are read:
  as a signed number, an angle from \<open>-\<pi>\<close> up to \<open>\<pi>\<close>, or as an unsigned one, an angle
  from 0 up to \<open>2\<pi>\<close>. The arc cosine is cut to a whole number of units, so it is exact
  where the angle is a whole number of units; the sine is the sine of the angle.
\<close>

definition bams16_signed :: "16 word bams" where
  "bams16_signed =
     \<lparr>bams16Acos = (\<lambda>v. word_of_int \<lfloor>arccos v * 32768 / pi\<rfloor>),
      bams16ToFloatRad = (\<lambda>b. real_of_int (sint b) * pi / 32768),
      bams16Sin = (\<lambda>b. sin (real_of_int (sint b) * pi / 32768))\<rparr>"

definition bams16_unsigned :: "16 word bams" where
  "bams16_unsigned =
     \<lparr>bams16Acos = (\<lambda>v. word_of_int \<lfloor>arccos v * 32768 / pi\<rfloor>),
      bams16ToFloatRad = (\<lambda>b. real_of_int (uint b) * pi / 32768),
      bams16Sin = (\<lambda>b. sin (real_of_int (uint b) * pi / 32768))\<rparr>"


text \<open>
  A simple instance of the services, used to run the module on concrete inputs: a
  proportional control law, a filter that halves its input and records it, and a yaw
  filter statement that attaches the filter its parameter block describes.
\<close>

definition simple_services :: services where
  "simple_services =
     \<lparr>ctrlInitPidParams = (\<lambda>pid ts. pid\<lparr>c_ts := ts, c_running := False\<rparr>),
      ctrlRunPid = (\<lambda>pid e f. (c_kp pid * e, pid, (\<lambda>d. d))),
      dfilterApply = (\<lambda>f v. (v / 2, f\<lparr>df_history := v # df_history f\<rparr>)),
      yawRateFilterAssigned =
        (\<lambda>p old. dfilterCreate (rf_order p) (rf_type p) (rf_xcoeffs p) (rf_ycoeffs p))\<rparr>"


text \<open>The module state when the program starts: static storage is zero.\<close>

definition zero_pid :: CtrlPidParamStruct where
  "zero_pid =
     \<lparr>c_ref = 0, c_kp = 0, c_ki = 0, c_kd = 0, c_offset = 0, c_beta = 0, c_gamma = 0,
      c_umax = 0, c_umin = 0, c_ts = 0, c_running = False, c_memory = []\<rparr>"

definition boot :: regulator where
  "boot =
     \<lparr>yawPid = zero_pid, pitchPid = zero_pid, rollPid = zero_pid,
      yawRateFilter = None, pitchRateFilter = None, rollRateFilter = None,
      is_ready = False, reg_mode = 0,
      rc_outputs = \<lparr>thrust = 0, steer = 0, elevator = 0\<rparr>,
      reference = zero_quat,
      reg_state = replicate 5 zero_state,
      reg_state_buff = \<lparr>idle = [], active = []\<rparr>,
      hw = []\<rparr>"

text \<open>
  The state after \<^verbatim>\<open>rgltrSetup(0.01)\<close> on the freshly started program, with the simple
  services: in this instance the yaw filter statement attaches the filter of the block.
\<close>

definition ready :: regulator where
  "ready = (case rgltrSetup simple_services (1 / 100) boot of Inr s \<Rightarrow> s | Inl e \<Rightarrow> boot)"

definition unit_quat :: Quaternion where
  "unit_quat = \<lparr>qw = 1, qx = 0, qy = 0, qz = 0\<rparr>"

text \<open>The parameter block \<^verbatim>\<open>rgltrSetup\<close> fills in lines 114-115 and 140-143.\<close>

definition default_params :: RateFilterParamsStruct where
  "default_params =
     \<lparr>rf_order = 3, rf_type = 0, rf_xcoeffs = [1 / 6, 3, 3, 1], rf_ycoeffs = [0, 0, 1 / 3, 0]\<rparr>"

text \<open>The filter this block describes, before it has seen a sample.\<close>

definition default_filter :: DigitalFilterStruct where
  "default_filter =
     \<lparr>df_order = 3, df_type = 0, df_xcoeffs = [1 / 6, 3, 3, 1],
      df_ycoeffs = [0, 0, 1 / 3, 0], df_history = []\<rparr>"

text \<open>The set-up module switched to remote control.\<close>

definition remote :: regulator where
  "remote = rgltrSetMode REG_REMOTE_CONTROL ready"

text \<open>Half turns about the roll and the pitch axis.\<close>

definition half_roll :: Quaternion where
  "half_roll = \<lparr>qw = 0, qx = 1, qy = 0, qz = 0\<rparr>"

definition half_pitch :: Quaternion where
  "half_pitch = \<lparr>qw = 0, qx = 0, qy = 1, qz = 0\<rparr>"



text \<open>
  One control cycle of the set-up module with the pose equal to the reference, at tick 7,
  entered with the value 42 in the storage of the local \<^verbatim>\<open>a\<close>.
\<close>

definition aligned_cycle :: regulator where
  "aligned_cycle = rgltrRunController bams16_signed simple_services unit_quat 7 42 ready"

section \<open>Properties\<close>

subsection \<open>How the phases of the control cycle touch the state\<close>

lemma modeBranch_frame:
  "modeBranch P y p s = (out, s1) \<Longrightarrow>
     hw s1 = hw s \<and> is_ready s1 = is_ready s \<and> reg_mode s1 = reg_mode s \<and>
     reference s1 = reference s \<and> reg_state s1 = reg_state s \<and>
     reg_state_buff s1 = reg_state_buff s \<and> rc_outputs s1 = rc_outputs s \<and>
     rollPid s1 = rollPid s \<and> rollRateFilter s1 = rollRateFilter s"
  by (auto simp: modeBranch_def runYawControl_def runPitchControl_def
           split: if_splits prod.splits)

lemma crossFilter_frame:
  "crossFilter P p s = (v, s1) \<Longrightarrow>
     hw s1 = hw s \<and> is_ready s1 = is_ready s \<and> reg_mode s1 = reg_mode s \<and>
     reference s1 = reference s \<and> reg_state s1 = reg_state s \<and>
     reg_state_buff s1 = reg_state_buff s \<and> rc_outputs s1 = rc_outputs s \<and>
     rollPid s1 = rollPid s \<and> rollRateFilter s1 = rollRateFilter s \<and>
     yawPid s1 = yawPid s \<and> pitchPid s1 = pitchPid s"
  by (auto simp: crossFilter_def split: option.splits prod.splits)

lemma publish_frame:
  "hw (publish r s) = hw s \<and> is_ready (publish r s) = is_ready s \<and>
   reg_mode (publish r s) = reg_mode s \<and> reference (publish r s) = reference s \<and>
   rc_outputs (publish r s) = rc_outputs s \<and>
   rollPid (publish r s) = rollPid s \<and> rollRateFilter (publish r s) = rollRateFilter s \<and>
   yawPid (publish r s) = yawPid s \<and> pitchPid (publish r s) = pitchPid s \<and>
   yawRateFilter (publish r s) = yawRateFilter s"
  by (simp add: publish_def split: prod.splits option.splits)

lemma modeBranch_is_ready: "is_ready (snd (modeBranch P y p s)) = is_ready s"
  using modeBranch_frame [of P y p s] by (cases "modeBranch P y p s") simp

lemma modeBranch_reference: "reference (snd (modeBranch P y p s)) = reference s"
  using modeBranch_frame [of P y p s] by (cases "modeBranch P y p s") simp

lemma crossFilter_reference: "reference (snd (crossFilter P p s)) = reference s"
  using crossFilter_frame [of P p s] by (cases "crossFilter P p s") simp

lemma run_hw:
  assumes "is_ready s"
    and "orientationError T a0 (reference s) ps = (yaw_err, pitch_err, roll_err, a)"
    and "modeBranch P yaw_err pitch_err s = ((st, th, el), s1)"
  shows "hw (rgltrRunController T P ps ticks a0 s) = hw s @ [McSteer st, McThrust th, ServoSet el]"
  using assms modeBranch_frame [OF assms(3)]
  by (auto simp: rgltrRunController_def actuate_def publish_frame
           split: prod.splits dest: crossFilter_frame)

lemma modeBranch_filter:
  "modeBranch P y p s = (out, s1) \<Longrightarrow> yawRateFilter s \<noteq> None \<Longrightarrow> yawRateFilter s1 \<noteq> None"
  by (auto simp: modeBranch_def runYawControl_def runPitchControl_def
           split: if_splits prod.splits)

lemma run_publish:
  assumes "is_ready s"
    and "orientationError T a0 (reference s) ps = (yaw_err, pitch_err, roll_err, a)"
    and "modeBranch P yaw_err pitch_err s = (out, s1)"
    and "crossFilter P pitch_err s1 = (pitch', s2)"
    and "pbuffForceGetIdleOldest (reg_state_buff s) = (Some i, pb)"
  shows "reg_state (rgltrRunController T P ps ticks a0 s) =
           (reg_state s)[i := snapshot ticks (reference s) ps a roll_err pitch' yaw_err out]"
    and "reg_state_buff (rgltrRunController T P ps ticks a0 s) = pbuffAddActive pb i"
  using assms modeBranch_frame [OF assms(3)] crossFilter_frame [OF assms(4)]
  by (simp_all add: rgltrRunController_def actuate_def publish_def split: prod.splits)

lemma run_not_ready: "\<not> is_ready s \<Longrightarrow> rgltrRunController T P ps ticks a0 s = s"
  by (simp add: rgltrRunController_def)

lemma crossFilter_none: "yawRateFilter s = None \<Longrightarrow> crossFilter P p s = (p, s)"
  by (simp add: crossFilter_def)

lemma run_mode: "reg_mode (rgltrRunController T P ps ticks a0 s) = reg_mode s"
  by (auto simp: rgltrRunController_def actuate_def publish_frame split: prod.splits
       dest!: modeBranch_frame crossFilter_frame)

lemma run_remote_pids:
  "reg_mode s = REG_REMOTE_CONTROL \<Longrightarrow>
     yawPid (rgltrRunController T P ps ticks a0 s) = yawPid s \<and>
     pitchPid (rgltrRunController T P ps ticks a0 s) = pitchPid s \<and>
     rollPid (rgltrRunController T P ps ticks a0 s) = rollPid s"
  by (auto simp: rgltrRunController_def actuate_def publish_frame modeBranch_def
       split: prod.splits dest!: crossFilter_frame)

subsection \<open>The set-up module\<close>

lemma setup_result:
  "rgltrSetup P ts s0 =
     Inr (s0\<lparr>is_ready := True, reg_mode := REG_OFF,
             hw := hw s0 @ [ServoSetup, McSetup],
             yawPid := ctrlInitPidParams P (yawPid s0) ts,
             pitchPid := ctrlInitPidParams P (pitchPid s0) ts,
             rollPid := ctrlInitPidParams P (rollPid s0) ts,
             reg_state_buff := \<lparr>idle = [0, 1, 2, 3, 4], active = []\<rparr>,
             reference := \<lparr>qw = 1, qx = 0, qy = 0, qz = 0\<rparr>,
             yawRateFilter := yawRateFilterAssigned P default_params (yawRateFilter s0)\<rparr>)"
proof -
  have "[0..<5] = [0, 1, 2, 3, 4]" by (simp add: upt_rec)
  then show ?thesis
    by (simp add: rgltrSetup_def rgltrSetYawRateFilter_def pbuffInit_def
          REG_BUFF_SIZE_def Let_def default_params_def)
qed

lemma ready_fields:
  "is_ready ready" "reg_mode ready = REG_OFF" "reference ready = unit_quat"
  "hw ready = [ServoSetup, McSetup]"
  "reg_state_buff ready = \<lparr>idle = [0, 1, 2, 3, 4], active = []\<rparr>"
  "reg_state ready = replicate 5 zero_state"
  "yawRateFilter ready = Some default_filter"
  by (simp_all add: ready_def setup_result boot_def unit_quat_def simple_services_def
        dfilterCreate_def default_params_def default_filter_def)

lemma ready_reachable: "reachable T simple_services ready"
  by (rule reachable.r_setup [of boot simple_services "1 / 100"])
     (simp_all add: ready_def setup_result boot_def REG_BUFF_SIZE_def)

lemma ready_slot:
  "pbuffForceGetIdleOldest (reg_state_buff ready) =
     (Some 0, \<lparr>idle = [1, 2, 3, 4], active = []\<rparr>)"
  by (simp add: pbuffForceGetIdleOldest_def ready_fields)

lemma ready_off: "modeBranch simple_services y p ready = ((0, 0, 0), ready)"
  by (simp add: modeBranch_def ready_fields REG_OFF_def REG_TRACK_def REG_REMOTE_CONTROL_def)

lemma simple_filter: "fst (dfilterApply simple_services f v) = v / 2"
  by (simp add: simple_services_def)

lemma ready_filter:
  "crossFilter simple_services p ready =
     (p / 2, ready\<lparr>yawRateFilter := Some (default_filter\<lparr>df_history := [p]\<rparr>)\<rparr>)"
  by (simp add: crossFilter_def ready_fields simple_services_def default_filter_def)

subsection \<open>The pool between operations\<close>

text \<open>
  In every reachable state each of the five slots is idle or active, so the control
  cycle always finds a slot to write, and the slot lies inside \<^verbatim>\<open>reg_state\<close>.
\<close>

lemma move_to_end:
  "distinct (xs @ ys @ [i]) = distinct ((i # xs) @ ys)"
  "set (xs @ ys @ [i]) = set ((i # xs) @ ys)"
  "distinct (ys @ [i]) = distinct (i # ys)"
  "set (ys @ [i]) = set (i # ys)"
  by auto

lemma publish_pool: "pool_complete s \<Longrightarrow> pool_complete (publish r s)"
proof (cases "idle (reg_state_buff s)")
  case Nil
  assume c: "pool_complete s"
  show ?thesis
  proof (cases "active (reg_state_buff s)")
    case Nil
    with \<open>idle (reg_state_buff s) = []\<close> c show ?thesis
      by (simp add: pool_complete_def publish_def pbuffForceGetIdleOldest_def)
  next
    case (Cons i rest)
    with \<open>idle (reg_state_buff s) = []\<close> c show ?thesis
      by (simp add: pool_complete_def publish_def pbuffForceGetIdleOldest_def
            pbuffAddActive_def move_to_end del: distinct_append set_append)
  qed
next
  case (Cons i rest)
  assume c: "pool_complete s"
  with Cons show ?thesis
    by (simp add: pool_complete_def publish_def pbuffForceGetIdleOldest_def
          pbuffAddActive_def move_to_end del: distinct_append set_append)
qed

lemma actuate_pool: "pool_complete (actuate out s) = pool_complete s"
  by (simp add: actuate_def pool_complete_def split: prod.splits)

lemma run_pool: "pool_complete s \<Longrightarrow> pool_complete (rgltrRunController T P ps ticks a0 s)"
proof (cases "is_ready s")
  case False
  assume "pool_complete s"
  with False show ?thesis by (simp add: rgltrRunController_def)
next
  case True
  assume c: "pool_complete s"
  obtain yaw_err pitch_err roll_err a where
    e: "orientationError T a0 (reference s) ps = (yaw_err, pitch_err, roll_err, a)"
    by (cases "orientationError T a0 (reference s) ps") auto
  obtain out s1 where m: "modeBranch P yaw_err pitch_err s = (out, s1)"
    by (cases "modeBranch P yaw_err pitch_err s") auto
  obtain p' s2 where f: "crossFilter P pitch_err s1 = (p', s2)"
    by (cases "crossFilter P pitch_err s1") auto
  have "pool_complete s2"
    using c modeBranch_frame [OF m] crossFilter_frame [OF f] by (simp add: pool_complete_def)
  then have "pool_complete (publish (snapshot ticks (reference s2) ps a roll_err p' yaw_err out) s2)"
    by (rule publish_pool)
  then show ?thesis
    using True e m f by (simp add: rgltrRunController_def actuate_pool)
qed

lemma get_pool: "pool_complete s \<Longrightarrow> pool_complete (snd (rgltrGetState s))"
proof (cases "active (reg_state_buff s)")
  case Nil
  assume "pool_complete s"
  with Nil show ?thesis
    by (simp add: pool_complete_def rgltrGetState_def pbuffGetOldestActive_def)
next
  case (Cons i rest)
  assume "pool_complete s"
  with Cons show ?thesis
    by (auto simp: pool_complete_def rgltrGetState_def pbuffGetOldestActive_def pbuffReturn_def)
qed

lemma setters_pool:
  "rgltrSetYawPid p s = Inr s' \<Longrightarrow> pool_complete s' = pool_complete s"
  "rgltrSetPitchPid p s = Inr s' \<Longrightarrow> pool_complete s' = pool_complete s"
  "rgltrSetRollPid p s = Inr s' \<Longrightarrow> pool_complete s' = pool_complete s"
  "rgltrSetYawRateFilter P f s = Inr s' \<Longrightarrow> pool_complete s' = pool_complete s"
  "rgltrSetPitchRateFilter f s = Inr s' \<Longrightarrow> pool_complete s' = pool_complete s"
  "rgltrSetRollRateFilter f s = Inr s' \<Longrightarrow> pool_complete s' = pool_complete s"
  by (auto simp: pool_complete_def rgltrSetYawPid_def rgltrSetPitchPid_def
        rgltrSetRollPid_def rgltrSetYawRateFilter_def rgltrSetPitchRateFilter_def
        rgltrSetRollRateFilter_def split: option.splits)

lemma plain_ops_pool:
  "pool_complete (rgltrSetMode flag s) = pool_complete s"
  "pool_complete (rgltrSetRemoteControlValues th st el s) = pool_complete s"
  "pool_complete (rgltrSetQuatRef r s) = pool_complete s"
  "pool_complete (rgltrSetYawRef v s) = pool_complete s"
  "pool_complete (rgltrSetPitchRef v s) = pool_complete s"
  "pool_complete (rgltrSetRollRef v s) = pool_complete s"
  by (simp_all add: pool_complete_def rgltrSetMode_def rgltrSetRemoteControlValues_def
        rgltrSetQuatRef_def rgltrSetYawRef_def rgltrSetPitchRef_def rgltrSetRollRef_def
      split: option.splits)

lemma five_slots: "[0..<REG_BUFF_SIZE] = [0, 1, 2, 3, 4]"
  by (simp add: REG_BUFF_SIZE_def upt_rec)

lemma setup_pool:
  assumes "length (reg_state s0) = REG_BUFF_SIZE" and "rgltrSetup P ts s0 = Inr s"
  shows "pool_complete s"
proof -
  have d: "distinct [0..<REG_BUFF_SIZE]" and e: "set [0..<REG_BUFF_SIZE] = {0..<REG_BUFF_SIZE}"
    by simp_all
  have r: "reg_state s = reg_state s0"
    and b: "reg_state_buff s = \<lparr>idle = [0, 1, 2, 3, 4], active = []\<rparr>"
    using assms(2) by (auto simp: setup_result)
  show ?thesis
    unfolding pool_complete_def r b using assms(1) d e
    by (simp only: five_slots PoolBuffStruct.simps append_Nil2 simp_thms)
qed

lemma reachable_pool: "reachable T P s \<Longrightarrow> pool_complete s"
proof (induction rule: reachable.induct)
  case (r_setup s0 ts s)
  then show ?case by (simp add: setup_pool)
next
  case (r_mode s flag)
  then show ?case by (simp add: plain_ops_pool)
next
  case (r_run s ps ticks a0)
  then show ?case by (simp add: run_pool)
next
  case (r_remote s th st el)
  then show ?case by (simp add: plain_ops_pool)
next
  case (r_quat s r)
  then show ?case by (simp add: plain_ops_pool)
next
  case (r_get s)
  then show ?case by (simp add: get_pool)
next
  case (r_yaw_ref s v)
  then show ?case by (simp add: plain_ops_pool)
next
  case (r_pitch_ref s v)
  then show ?case by (simp add: plain_ops_pool)
next
  case (r_roll_ref s v)
  then show ?case by (simp add: plain_ops_pool)
next
  case (r_yaw_pid s p s')
  then show ?case by (simp add: setters_pool)
next
  case (r_pitch_pid s p s')
  then show ?case by (simp add: setters_pool)
next
  case (r_roll_pid s p s')
  then show ?case by (simp add: setters_pool)
next
  case (r_yaw_filter s f s')
  then show ?case by (simp add: setters_pool)
next
  case (r_pitch_filter s f s')
  then show ?case by (simp add: setters_pool)
next
  case (r_roll_filter s f s')
  then show ?case by (simp add: setters_pool)
qed

lemma reachable_slot:
  assumes "reachable T P s"
  shows "\<exists>i pb. pbuffForceGetIdleOldest (reg_state_buff s) = (Some i, pb) \<and>
           i < length (reg_state s)"
proof -
  have c: "pool_complete s" using assms by (rule reachable_pool)
  then have l: "length (reg_state s) = REG_BUFF_SIZE"
    and m: "set (idle (reg_state_buff s) @ active (reg_state_buff s)) = {0..<REG_BUFF_SIZE}"
    by (simp_all add: pool_complete_def)
  show ?thesis
  proof (cases "idle (reg_state_buff s)")
    case (Cons i rest)
    then have "i < REG_BUFF_SIZE" using m by auto
    with Cons l show ?thesis by (simp add: pbuffForceGetIdleOldest_def)
  next
    case Nil
    show ?thesis
    proof (cases "active (reg_state_buff s)")
      case (Cons i rest)
      then have "i < REG_BUFF_SIZE" using m by auto
      with Cons Nil l show ?thesis by (simp add: pbuffForceGetIdleOldest_def)
    next
      case Nil
      with \<open>idle (reg_state_buff s) = []\<close> m show ?thesis
        by (simp add: REG_BUFF_SIZE_def)
    qed
  qed
qed

subsection \<open>Orientation error\<close>

lemma orientationError_no_rotation:
  "qw (quatMult rf (quatConj ps)) = 1 \<Longrightarrow> orientationError T a0 rf ps = (0, 0, 0, a0)"
  by (simp add: orientationError_def Let_def)

lemma quat_self:
  "qw (quatMult q (quatConj q)) = (qw q)\<^sup>2 + (qx q)\<^sup>2 + (qy q)\<^sup>2 + (qz q)\<^sup>2"
  by (simp add: quatMult_def quatConj_def power2_eq_square)

text \<open>
  With the pose equal to a reference of norm 1 the three axis errors are zero; the
  fourth component is whatever the local \<^verbatim>\<open>a\<close> held on entry.
\<close>

lemma orientationError_same:
  "(qw q)\<^sup>2 + (qx q)\<^sup>2 + (qy q)\<^sup>2 + (qz q)\<^sup>2 = 1 \<Longrightarrow>
     orientationError T a0 q q = (0, 0, 0, a0)"
  by (simp add: orientationError_no_rotation quat_self)

lemma aligned_cycle_fields:
  "reg_state aligned_cycle =
     (replicate 5 zero_state)
       [0 := \<lparr>time = 7, ref = unit_quat, pose = unit_quat,
               error = \<lparr>qw = 42, qx = 0, qy = 0, qz = 0\<rparr>, u = [0, 0, 0]\<rparr>]"
  "reg_state_buff aligned_cycle = \<lparr>idle = [1, 2, 3, 4], active = [0]\<rparr>"
proof -
  have e: "orientationError bams16_signed 42 (reference ready) unit_quat = (0, 0, 0, 42)"
    by (simp add: ready_fields orientationError_same unit_quat_def)
  note p = run_publish [OF ready_fields(1) e ready_off ready_filter ready_slot, of 7]
  show "reg_state aligned_cycle =
     (replicate 5 zero_state)
       [0 := \<lparr>time = 7, ref = unit_quat, pose = unit_quat,
               error = \<lparr>qw = 42, qx = 0, qy = 0, qz = 0\<rparr>, u = [0, 0, 0]\<rparr>]"
    using p(1) by (simp add: aligned_cycle_def ready_fields snapshot_def)
  show "reg_state_buff aligned_cycle = \<lparr>idle = [1, 2, 3, 4], active = [0]\<rparr>"
    using p(2) by (simp add: aligned_cycle_def pbuffAddActive_def)
qed

text \<open>
  C1: when the error quaternion has \<open>w = 1\<close> the three axis errors are zero, and the
  rotation angle and the angle in the published record are meant to be zero as well
  (the branch is commented \<^verbatim>\<open>a = 0 case\<close>). The branch of lines 300-303 assigns the three
  axis errors only; line 343 then stores the unassigned local \<^verbatim>\<open>a\<close>. After set-up,
  with the pose equal to the reference, the record published by the cycle carries the
  value the local happened to hold, here 42, as its angle.
\<close>

theorem aligned_cycle_publishes_unassigned_angle:
  "reference ready = unit_quat \<and>
   orientationError bams16_signed 42 unit_quat unit_quat = (0, 0, 0, 42) \<and>
   active (reg_state_buff aligned_cycle) = [0] \<and>
   error (reg_state aligned_cycle ! 0) = \<lparr>qw = 42, qx = 0, qy = 0, qz = 0\<rparr>"
  by (simp add: ready_fields aligned_cycle_fields orientationError_same unit_quat_def)






subsection \<open>Mode\<close>

lemma mode_inv:
  "reachable T P s \<Longrightarrow> reg_mode s = REG_REMOTE_CONTROL \<Longrightarrow>
     \<not> ctrlIsRunning (yawPid s) \<and> \<not> ctrlIsRunning (pitchPid s) \<and> \<not> ctrlIsRunning (rollPid s)"
proof (induction rule: reachable.induct)
  case (r_setup ts s0 s)
  then show ?case
    by (auto simp: setup_result REG_OFF_def REG_REMOTE_CONTROL_def)
next
  case (r_mode s flag)
  then show ?case
    by (auto simp: rgltrSetMode_def ctrlIsRunning_def ctrlStop_def ctrlStart_def
          REG_OFF_def REG_TRACK_def REG_REMOTE_CONTROL_def split: if_splits)
next
  case (r_run s ps ticks a0)
  then show ?case
    by (simp add: run_mode run_remote_pids)
next
  case (r_get s)
  then show ?case
    by (simp add: rgltrGetState_def pbuffGetOldestActive_def split: list.splits)
qed (auto simp: rgltrSetRemoteControlValues_def rgltrSetQuatRef_def rgltrSetYawRef_def
       rgltrSetPitchRef_def rgltrSetRollRef_def rgltrSetYawPid_def rgltrSetPitchPid_def
       rgltrSetRollPid_def rgltrSetYawRateFilter_def rgltrSetPitchRateFilter_def
       rgltrSetRollRateFilter_def ctrlIsRunning_def ctrlSetRef_def setPid_def
       ctrlSetSaturation_def ctrlSetRefWeigts_def ctrlSetPidOffset_def ctrlSetPidParams_def
     split: option.splits)

text \<open>
  C3: from any state, setting the mode to Off stops the three axis controllers and
  stops the servo; Track starts the three controllers and the servo; RemoteControl
  stops the three controllers and starts the servo. Entering a mode twice gives the
  state of entering it once, with the servo call made twice. Hence in every state the
  set-up module can reach through its operations, the mode RemoteControl implies
  that none of the three controllers reports running.
\<close>

theorem setMode_effects:
  "(let s' = rgltrSetMode REG_OFF s in
      reg_mode s' = REG_OFF \<and> \<not> ctrlIsRunning (yawPid s') \<and> \<not> ctrlIsRunning (pitchPid s') \<and>
      \<not> ctrlIsRunning (rollPid s') \<and> hw s' = hw s @ [ServoStop]) \<and>
   (let s' = rgltrSetMode REG_TRACK s in
      reg_mode s' = REG_TRACK \<and> ctrlIsRunning (yawPid s') \<and> ctrlIsRunning (pitchPid s') \<and>
      ctrlIsRunning (rollPid s') \<and> hw s' = hw s @ [ServoStart]) \<and>
   (let s' = rgltrSetMode REG_REMOTE_CONTROL s in
      reg_mode s' = REG_REMOTE_CONTROL \<and> \<not> ctrlIsRunning (yawPid s') \<and>
      \<not> ctrlIsRunning (pitchPid s') \<and> \<not> ctrlIsRunning (rollPid s') \<and>
      hw s' = hw s @ [ServoStart]) \<and>
   rgltrSetMode REG_OFF (rgltrSetMode REG_OFF s) =
     (rgltrSetMode REG_OFF s)\<lparr>hw := hw s @ [ServoStop, ServoStop]\<rparr> \<and>
   rgltrSetMode REG_TRACK (rgltrSetMode REG_TRACK s) =
     (rgltrSetMode REG_TRACK s)\<lparr>hw := hw s @ [ServoStart, ServoStart]\<rparr> \<and>
   rgltrSetMode REG_REMOTE_CONTROL (rgltrSetMode REG_REMOTE_CONTROL s) =
     (rgltrSetMode REG_REMOTE_CONTROL s)\<lparr>hw := hw s @ [ServoStart, ServoStart]\<rparr> \<and>
   (reachable T P r \<and> reg_mode r = REG_REMOTE_CONTROL \<longrightarrow>
      \<not> ctrlIsRunning (yawPid r) \<and> \<not> ctrlIsRunning (pitchPid r) \<and>
      \<not> ctrlIsRunning (rollPid r))"
  using mode_inv [of T P r]
  by (simp add: rgltrSetMode_def ctrlIsRunning_def ctrlStop_def ctrlStart_def Let_def
        REG_OFF_def REG_TRACK_def REG_REMOTE_CONTROL_def)

theorem setMode_effects_witness:
  "reachable bams16_signed simple_services
     (rgltrSetMode REG_REMOTE_CONTROL (rgltrSetMode REG_TRACK ready)) \<and>
   reg_mode (rgltrSetMode REG_REMOTE_CONTROL (rgltrSetMode REG_TRACK ready))
     = REG_REMOTE_CONTROL \<and>
   ctrlIsRunning (yawPid (rgltrSetMode REG_TRACK ready)) \<and>
   \<not> ctrlIsRunning (yawPid (rgltrSetMode REG_REMOTE_CONTROL (rgltrSetMode REG_TRACK ready))) \<and>
   \<not> ctrlIsRunning (pitchPid (rgltrSetMode REG_REMOTE_CONTROL (rgltrSetMode REG_TRACK ready))) \<and>
   \<not> ctrlIsRunning (rollPid (rgltrSetMode REG_REMOTE_CONTROL (rgltrSetMode REG_TRACK ready)))"
proof -
  let ?r = "rgltrSetMode REG_REMOTE_CONTROL (rgltrSetMode REG_TRACK ready)"
  have r: "reachable bams16_signed simple_services ?r"
    by (intro reachable.r_mode ready_reachable)
  have m: "reg_mode ?r = REG_REMOTE_CONTROL"
    by (simp add: rgltrSetMode_def REG_OFF_def REG_TRACK_def REG_REMOTE_CONTROL_def)
  have t: "ctrlIsRunning (yawPid (rgltrSetMode REG_TRACK ready))"
    by (simp add: rgltrSetMode_def REG_OFF_def REG_TRACK_def ctrlIsRunning_def ctrlStart_def)
  show ?thesis
    using setMode_effects [of ready bams16_signed simple_services ?r] r m t by simp
qed

subsection \<open>Actuator commands\<close>

text \<open>
  C4: every cycle of the initialised module issues exactly the three driver calls
  steer, thrust, elevator, in this order, whatever the mode; in mode Off their
  arguments are 0, 0, 0, whatever the reference, the pose and the stored remote values.
\<close>

theorem actuator_commands:
  "is_ready s \<Longrightarrow>
     (\<exists>st th el. hw (rgltrRunController T P ps ticks a0 s)
                   = hw s @ [McSteer st, McThrust th, ServoSet el]) \<and>
     (reg_mode s = REG_OFF \<longrightarrow>
        hw (rgltrRunController T P ps ticks a0 s)
          = hw s @ [McSteer 0, McThrust 0, ServoSet 0])"
proof -
  assume r: "is_ready s"
  obtain yaw_err pitch_err roll_err a where
    e: "orientationError T a0 (reference s) ps = (yaw_err, pitch_err, roll_err, a)"
    by (cases "orientationError T a0 (reference s) ps") auto
  obtain st th el s1 where m: "modeBranch P yaw_err pitch_err s = ((st, th, el), s1)"
    by (cases "modeBranch P yaw_err pitch_err s") auto
  have h: "hw (rgltrRunController T P ps ticks a0 s) = hw s @ [McSteer st, McThrust th, ServoSet el]"
    by (rule run_hw [OF r e m])
  have "reg_mode s = REG_OFF \<Longrightarrow> st = 0 \<and> th = 0 \<and> el = 0"
    using m by (simp add: modeBranch_def REG_OFF_def REG_TRACK_def REG_REMOTE_CONTROL_def)
  with h show ?thesis by auto
qed

theorem actuator_commands_witness:
  "is_ready ready \<and> reg_mode ready = REG_OFF \<and>
   hw (rgltrRunController bams16_signed simple_services half_roll 7 0 ready)
     = [ServoSetup, McSetup, McSteer 0, McThrust 0, ServoSet 0]"
  using actuator_commands [of ready bams16_signed simple_services half_roll 7 0]
  by (simp add: ready_fields)

text \<open>
  C5: in mode RemoteControl a cycle of the initialised module issues the three driver
  calls with exactly the values last stored by \<^verbatim>\<open>rgltrSetRemoteControlValues\<close>, whatever
  the reference, the pose, the trigonometry and the services are.
\<close>

theorem remote_control_commands:
  "is_ready s \<Longrightarrow> reg_mode s = REG_REMOTE_CONTROL \<Longrightarrow>
     hw (rgltrRunController T P ps ticks a0 (rgltrSetRemoteControlValues th st el s))
       = hw s @ [McSteer st, McThrust th, ServoSet el]"
proof -
  let ?s = "rgltrSetRemoteControlValues th st el s"
  assume r: "is_ready s" and m: "reg_mode s = REG_REMOTE_CONTROL"
  obtain yaw_err pitch_err roll_err a where
    e: "orientationError T a0 (reference ?s) ps = (yaw_err, pitch_err, roll_err, a)"
    by (cases "orientationError T a0 (reference ?s) ps") auto
  have r': "is_ready ?s" using r by (simp add: rgltrSetRemoteControlValues_def)
  have b: "modeBranch P yaw_err pitch_err ?s = ((st, th, el), ?s)"
    using m by (simp add: modeBranch_def rgltrSetRemoteControlValues_def)
  show ?thesis
    using run_hw [OF r' e b] by (simp add: rgltrSetRemoteControlValues_def)
qed

theorem remote_control_commands_witness:
  "is_ready remote \<and> reg_mode remote = REG_REMOTE_CONTROL \<and>
   hw (rgltrRunController bams16_signed simple_services half_roll 7 0
         (rgltrSetRemoteControlValues (1 / 2) (- (1 / 5)) (1 / 10) remote))
     = [ServoSetup, McSetup, ServoStart,
        McSteer (- (1 / 5)), McThrust (1 / 2), ServoSet (1 / 10)]"
  using remote_control_commands
          [of remote bams16_signed simple_services half_roll 7 0 "1 / 2" "- (1 / 5)" "1 / 10"]
  by (simp add: remote_def rgltrSetMode_def ready_fields
        REG_OFF_def REG_TRACK_def REG_REMOTE_CONTROL_def)

subsection \<open>The cross-axis filter\<close>

text \<open>
  C6: in every cycle of the initialised module, in any mode, an attached yaw rate
  filter is applied to the pitch error after the mode branch has produced steer,
  thrust and elevator from the unfiltered errors, and before the record is written:
  the filter is in the state the mode branch left it in, the published record carries
  the filtered pitch error, and the commands are those of the mode branch.
\<close>

theorem pitch_error_cross_filtered:
  assumes "is_ready s" and "yawRateFilter s \<noteq> None"
    and "orientationError T a0 (reference s) ps = (yaw_err, pitch_err, roll_err, a)"
    and "modeBranch P yaw_err pitch_err s = ((st, th, el), s1)"
    and "pbuffForceGetIdleOldest (reg_state_buff s) = (Some i, pb)"
    and "i < length (reg_state s)"
  shows "\<exists>f. yawRateFilter s1 = Some f \<and>
           reg_state (rgltrRunController T P ps ticks a0 s) ! i =
             \<lparr>time = ticks, ref = reference s, pose = ps,
              error = \<lparr>qw = a, qx = roll_err, qy = fst (dfilterApply P f pitch_err),
                       qz = yaw_err\<rparr>,
              u = [th, st, el]\<rparr> \<and>
           active (reg_state_buff (rgltrRunController T P ps ticks a0 s)) = active pb @ [i] \<and>
           hw (rgltrRunController T P ps ticks a0 s) =
             hw s @ [McSteer st, McThrust th, ServoSet el]"
proof -
  obtain f where f: "yawRateFilter s1 = Some f"
    using modeBranch_filter [OF assms(4) assms(2)] by auto
  obtain pitch' s2 where c: "crossFilter P pitch_err s1 = (pitch', s2)"
    by (cases "crossFilter P pitch_err s1") auto
  have p: "pitch' = fst (dfilterApply P f pitch_err)"
    using c f by (simp add: crossFilter_def split: prod.splits)
  show ?thesis
    using f p assms(6) run_publish [OF assms(1) assms(3) assms(4) c assms(5), of ticks]
      run_hw [OF assms(1) assms(3) assms(4), of ticks]
    by (simp add: snapshot_def pbuffAddActive_def)
qed

theorem pitch_error_cross_filtered_witness:
  "is_ready ready \<and> yawRateFilter ready \<noteq> None \<and>
   orientationError bams16_unsigned 0 (reference ready) half_pitch = (0, - pi, 0, pi) \<and>
   modeBranch simple_services 0 (- pi) ready = ((0, 0, 0), ready) \<and>
   pbuffForceGetIdleOldest (reg_state_buff ready)
     = (Some 0, \<lparr>idle = [1, 2, 3, 4], active = []\<rparr>) \<and>
   0 < length (reg_state ready) \<and>
   reg_state (rgltrRunController bams16_unsigned simple_services half_pitch 7 0 ready) ! 0 =
     \<lparr>time = 7, ref = unit_quat, pose = half_pitch,
      error = \<lparr>qw = pi, qx = 0, qy = - pi / 2, qz = 0\<rparr>, u = [0, 0, 0]\<rparr>"
proof -
  have f: "yawRateFilter ready \<noteq> None" by (simp add: ready_fields)
  have e: "orientationError bams16_unsigned 0 (reference ready) half_pitch = (0, - pi, 0, pi)"
    by (simp add: ready_fields orientationError_def bams16_unsigned_def unit_quat_def
          half_pitch_def quatMult_def quatConj_def Let_def fdiv_def)
  have l: "0 < length (reg_state ready)" by (simp add: ready_fields)
  show ?thesis
    using pitch_error_cross_filtered [OF ready_fields(1) f e ready_off ready_slot l, of 7]
      f e l ready_off [of 0 "- pi"] ready_slot
    by (simp add: ready_fields(1,3,7) simple_filter)
qed

subsection \<open>The roll controller\<close>

text \<open>What the unused function would do: hand the roll error to the roll controller.\<close>

lemma runRollControl_running:
  "ctrlIsRunning (rollPid s) \<Longrightarrow>
     fst (runRollControl P r s) = fst (ctrlRunPid P (rollPid s) r (rollRateFilter s))"
  by (simp add: runRollControl_def case_prod_unfold)

lemma runYawControl_roll:
  "runYawControl P y (s\<lparr>rollPid := rp, rollRateFilter := rf\<rparr>) =
     (fst (runYawControl P y s), (snd (runYawControl P y s))\<lparr>rollPid := rp, rollRateFilter := rf\<rparr>)"
  by (simp add: runYawControl_def ctrlIsRunning_def case_prod_unfold)

lemma runPitchControl_roll:
  "runPitchControl P y (s\<lparr>rollPid := rp, rollRateFilter := rf\<rparr>) =
     (fst (runPitchControl P y s), (snd (runPitchControl P y s))\<lparr>rollPid := rp, rollRateFilter := rf\<rparr>)"
  by (simp add: runPitchControl_def ctrlIsRunning_def case_prod_unfold)

lemma runPitchControl_rc:
  "rc_outputs (snd (runPitchControl P y s)) = rc_outputs s"
  by (simp add: runPitchControl_def case_prod_unfold)

lemma modeBranch_roll:
  "modeBranch P y p (s\<lparr>rollPid := rp, rollRateFilter := rf\<rparr>) =
     (fst (modeBranch P y p s), (snd (modeBranch P y p s))\<lparr>rollPid := rp, rollRateFilter := rf\<rparr>)"
  by (simp add: modeBranch_def runYawControl_roll runPitchControl_roll runPitchControl_rc
        case_prod_unfold)

lemma crossFilter_roll:
  "crossFilter P p (s\<lparr>rollPid := rp, rollRateFilter := rf\<rparr>) =
     (fst (crossFilter P p s), (snd (crossFilter P p s))\<lparr>rollPid := rp, rollRateFilter := rf\<rparr>)"
  by (simp add: crossFilter_def split: prod.splits option.splits)

lemma publish_roll:
  "publish r (s\<lparr>rollPid := rp, rollRateFilter := rf\<rparr>) =
     (publish r s)\<lparr>rollPid := rp, rollRateFilter := rf\<rparr>"
  by (simp add: publish_def split: prod.splits option.splits)

lemma actuate_roll:
  "actuate out (s\<lparr>rollPid := rp, rollRateFilter := rf\<rparr>) =
     (actuate out s)\<lparr>rollPid := rp, rollRateFilter := rf\<rparr>"
  by (simp add: actuate_def split: prod.splits)

text \<open>
  C7: the control cycle never runs the roll controller. Whatever the services do when
  they are called, the cycle leaves the roll controller and the roll filter as they
  were, and replacing them by any other controller and filter changes nothing else in
  the result of the cycle: not the driver calls with their steer, thrust and elevator
  values, not the published record. \<^verbatim>\<open>runRollControl\<close> is defined and not used.
\<close>

theorem roll_controller_unused:
  "rollPid (rgltrRunController T P ps ticks a0 s) = rollPid s \<and>
   rollRateFilter (rgltrRunController T P ps ticks a0 s) = rollRateFilter s \<and>
   rgltrRunController T P ps ticks a0 (s\<lparr>rollPid := rp, rollRateFilter := rf\<rparr>) =
     (rgltrRunController T P ps ticks a0 s)\<lparr>rollPid := rp, rollRateFilter := rf\<rparr>"
proof -
  have "rollPid (rgltrRunController T P ps ticks a0 s) = rollPid s \<and>
        rollRateFilter (rgltrRunController T P ps ticks a0 s) = rollRateFilter s"
    by (auto simp: rgltrRunController_def actuate_def publish_frame split: prod.splits
         dest!: modeBranch_frame crossFilter_frame)
  moreover
  have "rgltrRunController T P ps ticks a0 (s\<lparr>rollPid := rp, rollRateFilter := rf\<rparr>) =
          (rgltrRunController T P ps ticks a0 s)\<lparr>rollPid := rp, rollRateFilter := rf\<rparr>"
    by (simp add: rgltrRunController_def modeBranch_roll crossFilter_roll publish_roll
          actuate_roll modeBranch_is_ready modeBranch_reference crossFilter_reference
          case_prod_unfold)
  ultimately show ?thesis by simp
qed

subsection \<open>Null arguments\<close>

text \<open>
  C8: a null argument is ignored by the two quaternion reference accessors, which
  test for it (lines 243 and 250). The three PID setters and the three rate filter
  setters have no such test: they read the fields of the parameter block through the
  null pointer.
\<close>

theorem null_parameter_block_dereferenced:
  "rgltrSetQuatRef None s = s \<and> rgltrGetQuatRef None s = None \<and>
   rgltrSetYawPid None s = Inl NullDereference \<and>
   rgltrSetPitchPid None s = Inl NullDereference \<and>
   rgltrSetRollPid None s = Inl NullDereference \<and>
   rgltrSetYawRateFilter P None s = Inl NullDereference \<and>
   rgltrSetPitchRateFilter None s = Inl NullDereference \<and>
   rgltrSetRollRateFilter None s = Inl NullDereference"
  by (simp add: rgltrSetQuatRef_def rgltrGetQuatRef_def rgltrSetYawPid_def
        rgltrSetPitchPid_def rgltrSetRollPid_def rgltrSetYawRateFilter_def
        rgltrSetPitchRateFilter_def rgltrSetRollRateFilter_def)

subsection \<open>Telemetry read\<close>

text \<open>
  C9: \<^verbatim>\<open>rgltrGetState\<close> always returns. With no active slot it delivers the all-zero
  record and leaves the state, the pool included, as it was. Otherwise it delivers the
  content of the oldest active slot and returns the slot to the pool at once: the slot
  leaves the active queue and joins the idle queue, where the producer can take it
  again.
\<close>

theorem getState_read:
  "(active (reg_state_buff s) = [] \<longrightarrow> rgltrGetState s = (zero_state, s)) \<and>
   (\<forall>i rest. active (reg_state_buff s) = i # rest \<longrightarrow>
      rgltrGetState s =
        (reg_state s ! i,
         s\<lparr>reg_state_buff := \<lparr>idle = idle (reg_state_buff s) @ [i], active = rest\<rparr>\<rparr>))"
  by (simp add: rgltrGetState_def pbuffGetOldestActive_def pbuffReturn_def)

theorem getState_read_witness:
  "active (reg_state_buff ready) = [] \<and> rgltrGetState ready = (zero_state, ready) \<and>
   active (reg_state_buff aligned_cycle) = [0] \<and>
   fst (rgltrGetState aligned_cycle) =
     \<lparr>time = 7, ref = unit_quat, pose = unit_quat,
      error = \<lparr>qw = 42, qx = 0, qy = 0, qz = 0\<rparr>, u = [0, 0, 0]\<rparr> \<and>
   reg_state_buff (snd (rgltrGetState aligned_cycle)) = \<lparr>idle = [1, 2, 3, 4, 0], active = []\<rparr>"
  using getState_read [of ready] getState_read [of aligned_cycle]
  by (simp add: ready_fields aligned_cycle_fields)

subsection \<open>Set-up\<close>


end
